theory Spec2Isabelle
  imports Complex_Main "HOL-Library.Char_ord" "HOL-Library.List_Lexorder" "HOL-Library.AList"
begin

section \<open>Benchmark comparison script: the data the code works on\<close>

text \<open>
  The script \<^verbatim>\<open>scripts/compare-benchmarks.py\<close> works on whatever \<^verbatim>\<open>json.load\<close>
  returns, so the embedding keeps Python's dynamic typing: a document is a JSON value,
  and every operation that Python can refuse (attribute access on a non-dict, iteration
  over a non-iterable, arithmetic on a non-number) is a branch that returns the
  exception.

  \<^item> A Python \<^verbatim>\<open>str\<close> is modelled by its UTF-8 bytes (\<^typ>\<open>string\<close>). The order of
    \<^verbatim>\<open>HOL-Library.List_Lexorder\<close> over \<^verbatim>\<open>HOL-Library.Char_ord\<close> compares byte lists
    lexicographically, which on UTF-8 is Python's code point order on \<^verbatim>\<open>str\<close>.
  \<^item> A JSON number is modelled by its exact value in \<^typ>\<open>real\<close>. Python's \<^verbatim>\<open>int\<close>
    and \<^verbatim>\<open>float\<close> are not told apart, and the rounding, infinities and NaN of IEEE
    double arithmetic are not modelled: the arithmetic below is the exact one.
  \<^item> A \<^verbatim>\<open>dict\<close> read from JSON is an association list, looked up with \<^const>\<open>map_of\<close>.
\<close>

datatype json =
    JNull
  | JBool bool
  | JNum real
  | JStr string
  | JArr "json list"
  | JObj "(string \<times> json) list"

text \<open>
  The exceptions the script can let escape. \<open>Outside_Model\<close> is not a Python exception:
  it marks the inputs whose Python behaviour the embedding does not follow (a benchmark
  name or a metadata label that is a number, a boolean or null; Python accepts them).
  No theorem below draws a conclusion about the script from it.
\<close>

datatype fault =
    OSError
  | JSONDecodeError
  | AttributeError
  | KeyError
  | TypeError
  | ZeroDivisionError
  | Outside_Model

text \<open>\<^verbatim>\<open>d.get(k, default)\<close>: only a dict has the method.\<close>

fun dict_get :: "json \<Rightarrow> string \<Rightarrow> json \<Rightarrow> fault + json" where
  "dict_get (JObj kvs) k d = Inr (case map_of kvs k of None \<Rightarrow> d | Some v \<Rightarrow> v)"
| "dict_get _ k d = Inl AttributeError"

text \<open>
  Python's numbers among the JSON values: \<^verbatim>\<open>bool\<close> is a subclass of \<^verbatim>\<open>int\<close>
  (\<^verbatim>\<open>True\<close> is 1), every other non-number refuses arithmetic, ordering against a
  number and the \<^verbatim>\<open>f\<close> format with \<^verbatim>\<open>TypeError\<close> (\<^verbatim>\<open>ValueError\<close> for a \<^verbatim>\<open>str\<close>
  under the \<^verbatim>\<open>f\<close> format is not reached: the comparison in \<^verbatim>\<open>format_duration\<close> comes
  first).
\<close>

fun num_of :: "json \<Rightarrow> real option" where
  "num_of (JNum x) = Some x"
| "num_of (JBool b) = Some (if b then 1 else 0)"
| "num_of _ = None"

section \<open>The comparator\<close>

text \<open>True division \<^verbatim>\<open>a / b\<close> on numbers: Python raises on a zero divisor.\<close>

definition truediv :: "real \<Rightarrow> real \<Rightarrow> fault + real" where
  "truediv a b = (if b = 0 then Inl ZeroDivisionError else Inr (a / b))"

text \<open>
  \<^verbatim>\<open>calculate_change(baseline, current)\<close>, lines 20-24. \<^verbatim>\<open>baseline == 0\<close> is false for
  a value that is not a number; the subtraction then raises \<^verbatim>\<open>TypeError\<close> unless both
  operands are numbers.
\<close>

definition calculate_change :: "json \<Rightarrow> json \<Rightarrow> fault + real" where
  "calculate_change baseline_mean current_mean =
     (if num_of baseline_mean = Some 0 then Inr 0
      else case (num_of current_mean, num_of baseline_mean) of
             (Some c, Some b) \<Rightarrow>
               (case truediv (c - b) b of
                  Inl e \<Rightarrow> Inl e
                | Inr q \<Rightarrow> Inr (q * 100))
           | _ \<Rightarrow> Inl TypeError)"

datatype status = New | Removed | Regression | Improvement | Unchanged

text \<open>
  The dict built at lines 69-75. \<open>baseline\<close> and \<open>current\<close> hold the benchmark entry
  itself, \<open>None\<close> for Python's \<^verbatim>\<open>None\<close>.
\<close>

record comparison =
  name :: string
  status :: status
  baseline :: "json option"
  current :: "json option"
  change_percent :: real

text \<open>\<^verbatim>\<open>b['name']\<close>: a dict without the key raises \<^verbatim>\<open>KeyError\<close>, a list or a string
  refuses a string index, the other values are not subscriptable.\<close>

fun subscript_name :: "json \<Rightarrow> fault + json" where
  "subscript_name (JObj kvs) =
     (case map_of kvs ''name'' of None \<Rightarrow> Inl KeyError | Some v \<Rightarrow> Inr v)"
| "subscript_name _ = Inl TypeError"

text \<open>A value used as a dict key: lists and dicts are unhashable.\<close>

fun dict_key :: "json \<Rightarrow> fault + string" where
  "dict_key (JStr s) = Inr s"
| "dict_key (JArr xs) = Inl TypeError"
| "dict_key (JObj kvs) = Inl TypeError"
| "dict_key _ = Inl Outside_Model"

text \<open>
  The dict comprehension \<^verbatim>\<open>{b['name']: b for b in ...}\<close> of lines 60-61 over a list:
  entries are stored in order, a later entry replaces the value of an earlier one with
  the same name (\<^const>\<open>AList.update\<close> keeps the key's place, as Python's dict does).
\<close>

fun index_by_name :: "json list \<Rightarrow> (string \<times> json) list \<Rightarrow> fault + (string \<times> json) list" where
  "index_by_name [] d = Inr d"
| "index_by_name (b # bs) d =
     (case subscript_name b of
        Inl e \<Rightarrow> Inl e
      | Inr v \<Rightarrow>
          (case dict_key v of
             Inl e \<Rightarrow> Inl e
           | Inr k \<Rightarrow> index_by_name bs (AList.update k b d)))"

text \<open>
  The comprehension over the value of the \<^verbatim>\<open>benchmarks\<close> field. A list is iterated
  element by element. Iterating a \<^verbatim>\<open>str\<close> yields one-character strings and iterating
  a dict yields its keys, which are strings: \<^verbatim>\<open>b['name']\<close> raises \<^verbatim>\<open>TypeError\<close> on the
  first of them, so only the empty string and the empty dict pass. Null, booleans and
  numbers are not iterable.
\<close>

fun benchmark_index :: "json \<Rightarrow> fault + (string \<times> json) list" where
  "benchmark_index (JArr bs) = index_by_name bs []"
| "benchmark_index (JStr s) = (if s = [] then Inr [] else Inl TypeError)"
| "benchmark_index (JObj kvs) = (if kvs = [] then Inr [] else Inl TypeError)"
| "benchmark_index _ = Inl TypeError"

text \<open>
  The body of the loop, lines 66-100, for one name. \<open>baseline_benchmarks\<close> and
  \<open>current_benchmarks\<close> are the two dicts; \<^verbatim>\<open>.get(name)\<close> is \<^const>\<open>map_of\<close>.
\<close>

definition compare_name ::
  "(string \<times> json) list \<Rightarrow> (string \<times> json) list \<Rightarrow> real \<Rightarrow> string \<Rightarrow> fault + comparison" where
  "compare_name baseline_benchmarks current_benchmarks threshold n =
     (let base = map_of baseline_benchmarks n;
          curr = map_of current_benchmarks n;
          comparison = \<lparr>name = n, status = Unchanged, baseline = None, current = None,
                          change_percent = 0\<rparr>
      in case base of
           None \<Rightarrow> Inr (comparison\<lparr>status := New, current := curr\<rparr>)
         | Some b \<Rightarrow>
             (case curr of
                None \<Rightarrow> Inr (comparison\<lparr>status := Removed, baseline := base\<rparr>)
              | Some c \<Rightarrow>
                  (case dict_get b ''mean_ns'' (JNum 0) of
                     Inl e \<Rightarrow> Inl e
                   | Inr base_mean \<Rightarrow>
                       (case dict_get c ''mean_ns'' (JNum 0) of
                          Inl e \<Rightarrow> Inl e
                        | Inr curr_mean \<Rightarrow>
                            (case calculate_change base_mean curr_mean of
                               Inl e \<Rightarrow> Inl e
                             | Inr change \<Rightarrow>
                                 Inr (comparison
                                   \<lparr>baseline := base, current := curr, change_percent := change,
                                    status := (if change > threshold then Regression
                                               else if change < - threshold then Improvement
                                               else Unchanged)\<rparr>))))))"

text \<open>The loop \<^verbatim>\<open>for name in sorted(all_names)\<close>: the first exception ends it.\<close>

fun compare_names ::
  "(string \<times> json) list \<Rightarrow> (string \<times> json) list \<Rightarrow> real \<Rightarrow> string list \<Rightarrow> fault + comparison list" where
  "compare_names bb cb threshold [] = Inr []"
| "compare_names bb cb threshold (n # ns) =
     (case compare_name bb cb threshold n of
        Inl e \<Rightarrow> Inl e
      | Inr c \<Rightarrow>
          (case compare_names bb cb threshold ns of
             Inl e \<Rightarrow> Inl e
           | Inr cs \<Rightarrow> Inr (c # cs)))"

text \<open>
  \<^verbatim>\<open>compare_benchmarks(baseline, current, threshold)\<close>, lines 51-102. The set
  \<^verbatim>\<open>all_names\<close> is a \<^typ>\<open>string set\<close>; \<^verbatim>\<open>sorted\<close> of a set of strings is
  \<^const>\<open>sorted_list_of_set\<close>.
\<close>

definition all_names :: "(string \<times> json) list \<Rightarrow> (string \<times> json) list \<Rightarrow> string set" where
  "all_names baseline_benchmarks current_benchmarks =
     set (map fst baseline_benchmarks) \<union> set (map fst current_benchmarks)"

definition compare_benchmarks :: "json \<Rightarrow> json \<Rightarrow> real \<Rightarrow> fault + comparison list" where
  "compare_benchmarks baseline_doc current_doc threshold =
     (case dict_get baseline_doc ''benchmarks'' (JArr []) of
        Inl e \<Rightarrow> Inl e
      | Inr bl \<Rightarrow>
     (case benchmark_index bl of
        Inl e \<Rightarrow> Inl e
      | Inr baseline_benchmarks \<Rightarrow>
     (case dict_get current_doc ''benchmarks'' (JArr []) of
        Inl e \<Rightarrow> Inl e
      | Inr cl \<Rightarrow>
     (case benchmark_index cl of
        Inl e \<Rightarrow> Inl e
      | Inr current_benchmarks \<Rightarrow>
          compare_names baseline_benchmarks current_benchmarks threshold
            (sorted_list_of_set (all_names baseline_benchmarks current_benchmarks))))))"

section \<open>Reading a document: the vocabulary of the statements\<close>

text \<open>
  The theorems speak about a document through four observers, none of which the script
  calls: the list under \<^verbatim>\<open>benchmarks\<close>, an entry's \<^verbatim>\<open>name\<close> and \<^verbatim>\<open>mean_ns\<close>
  (0 when absent, the default of \<^verbatim>\<open>.get('mean_ns', 0)\<close>), and the last entry of a list
  that carries a given name (the one that wins in the dict comprehension).
\<close>

definition entries :: "json \<Rightarrow> json list" where
  "entries doc =
     (case doc of
        JObj kvs \<Rightarrow> (case map_of kvs ''benchmarks'' of Some (JArr bs) \<Rightarrow> bs | _ \<Rightarrow> [])
      | _ \<Rightarrow> [])"

definition entry_name :: "json \<Rightarrow> string" where
  "entry_name b =
     (case b of
        JObj kvs \<Rightarrow> (case map_of kvs ''name'' of Some (JStr s) \<Rightarrow> s | _ \<Rightarrow> [])
      | _ \<Rightarrow> [])"

definition mean_ns :: "json \<Rightarrow> real" where
  "mean_ns b =
     (case b of
        JObj kvs \<Rightarrow> (case map_of kvs ''mean_ns'' of Some (JNum x) \<Rightarrow> x | _ \<Rightarrow> 0)
      | _ \<Rightarrow> 0)"

fun latest :: "json list \<Rightarrow> string \<Rightarrow> json option" where
  "latest [] n = None"
| "latest (b # bs) n =
     (case latest bs n of
        Some b' \<Rightarrow> Some b'
      | None \<Rightarrow> if entry_name b = n then Some b else None)"

text \<open>
  A well-formed document, as the script's input format describes it: an object whose
  \<^verbatim>\<open>benchmarks\<close>, when present, is a list of objects with a string \<^verbatim>\<open>name\<close> and, when
  present, a numeric \<^verbatim>\<open>mean_ns\<close>.
\<close>

fun wf_entry :: "json \<Rightarrow> bool" where
  "wf_entry (JObj kvs) =
     ((case map_of kvs ''name'' of Some (JStr s) \<Rightarrow> True | _ \<Rightarrow> False) \<and>
      (case map_of kvs ''mean_ns'' of None \<Rightarrow> True | Some (JNum x) \<Rightarrow> True | _ \<Rightarrow> False))"
| "wf_entry _ = False"

fun wf_doc :: "json \<Rightarrow> bool" where
  "wf_doc (JObj kvs) =
     (case map_of kvs ''benchmarks'' of
        None \<Rightarrow> True
      | Some (JArr bs) \<Rightarrow> list_all wf_entry bs
      | _ \<Rightarrow> False)"
| "wf_doc _ = False"

text \<open>
  The metadata labels of a well-formed document: \<^verbatim>\<open>version\<close> and \<^verbatim>\<open>timestamp\<close>, when
  present, are strings.
\<close>

fun wf_labels :: "json \<Rightarrow> bool" where
  "wf_labels (JObj kvs) =
     ((case map_of kvs ''version'' of None \<Rightarrow> True | Some (JStr s) \<Rightarrow> True | _ \<Rightarrow> False) \<and>
      (case map_of kvs ''timestamp'' of None \<Rightarrow> True | Some (JStr s) \<Rightarrow> True | _ \<Rightarrow> False))"
| "wf_labels _ = False"

section \<open>Number formatting\<close>

text \<open>
  Python's format specifications \<^verbatim>\<open>.0f\<close>, \<^verbatim>\<open>.1f\<close>, \<^verbatim>\<open>.2f\<close> and \<^verbatim>\<open>+.1f\<close> belong to
  the language, not to the script; they are modelled on the exact value. Python rounds
  the decimal expansion of the binary float correctly, ties to even; on the exact value
  the same rule is \<open>round_half_even\<close>. The two agree whenever the value formatted is
  itself a binary float (as 1.5, 2.5 and 3.0 are). A negative value keeps its sign even
  when it rounds to zero, as Python's \<^verbatim>\<open>-0.00\<close>.
\<close>

definition digit_char :: "nat \<Rightarrow> char" where
  "digit_char d = ''0123456789'' ! d"

text \<open>\<^verbatim>\<open>str(n)\<close> of a natural number, as \<^verbatim>\<open>{len(...)}\<close> prints it.\<close>

fun show_nat :: "nat \<Rightarrow> string" where
  "show_nat n = (if n < 10 then [digit_char n] else show_nat (n div 10) @ [digit_char (n mod 10)])"

declare show_nat.simps [simp del]

definition round_half_even :: "real \<Rightarrow> int" where
  "round_half_even x =
     (let f = \<lfloor>x\<rfloor>; d = x - of_int f
      in if d < 1 / 2 then f
         else if d > 1 / 2 then f + 1
         else if even f then f else f + 1)"

definition fixed_digits :: "nat \<Rightarrow> real \<Rightarrow> string" where
  "fixed_digits p x =
     (let n = nat (round_half_even (\<bar>x\<bar> * 10 ^ p));
          whole = show_nat (n div 10 ^ p);
          frac = show_nat (n mod 10 ^ p)
      in if p = 0 then whole
         else whole @ ''.'' @ replicate (p - length frac) CHR ''0'' @ frac)"

text \<open>\<^verbatim>\<open>f"{x:.pf}"\<close> and \<^verbatim>\<open>f"{x:+.pf}"\<close>.\<close>

definition format_f :: "nat \<Rightarrow> real \<Rightarrow> string" where
  "format_f p x = (if x < 0 then ''-'' else '''') @ fixed_digits p x"

definition format_signed_f :: "nat \<Rightarrow> real \<Rightarrow> string" where
  "format_signed_f p x = (if x < 0 then ''-'' else ''+'') @ fixed_digits p x"

section \<open>The string literals of the source file that are not ASCII\<close>

text \<open>
  The source file is UTF-8. Its non-ASCII literals are stored as the byte sequences
  below, which is what Python reads and what the script writes. Line 34 holds
  \<open>C3 82 C2 B5\<close> before the \<open>s\<close> of the microsecond suffix: the two code points U+00C2
  and U+00B5, where the micro sign alone would be \<open>C2 B5\<close>. The symbols of lines
  124-156 and 208 are stored in the same doubly encoded way.
\<close>

definition micro_sign :: string where
  "micro_sign = [CHR 0xC3, CHR 0x82, CHR 0xC2, CHR 0xB5]"

definition red_circle :: string where
  "red_circle = [CHR 0xC4, CHR 0x9F, CHR 0xC5, CHR 0xB8, CHR 0xE2, CHR 0x80, CHR 0x9D, CHR 0xC2, CHR 0xB4]"

definition green_circle :: string where
  "green_circle = [CHR 0xC4, CHR 0x9F, CHR 0xC5, CHR 0xB8, CHR 0xC5, CHR 0xB8, CHR 0xC2, CHR 0xA2]"

definition white_circle :: string where
  "white_circle = [CHR 0xC3, CHR 0xA2, CHR 0xC5, CHR 0xA1, CHR 0xC2, CHR 0xAA]"

definition new_sign :: string where
  "new_sign = [CHR 0xC4, CHR 0x9F, CHR 0xC5, CHR 0xB8, CHR 0xE2, CHR 0x80, CHR 0xA0, CHR 0xE2, CHR 0x80, CHR 0xA2]"

definition cross_mark :: string where
  "cross_mark = [CHR 0xC3, CHR 0xA2, CHR 0xC5, CHR 0x92]"

definition warning_sign :: string where
  "warning_sign = [CHR 0xC3, CHR 0xA2, CHR 0xC5, CHR 0xA1, CHR 0xC2, CHR 0xA0, CHR 0xC3, CHR 0xAF, CHR 0xC2, CHR 0xB8]"

section \<open>The reporter\<close>

text \<open>
  \<^verbatim>\<open>format_duration(ns)\<close>, lines 27-36. The comparison \<^verbatim>\<open>ns >= 1e9\<close> raises
  \<^verbatim>\<open>TypeError\<close> on a value that is not a number.
\<close>

definition format_duration :: "json \<Rightarrow> fault + string" where
  "format_duration ns =
     (case num_of ns of
        None \<Rightarrow> Inl TypeError
      | Some x \<Rightarrow>
          Inr (if x \<ge> 10 ^ 9 then format_f 2 (x / 10 ^ 9) @ ''s''
               else if x \<ge> 10 ^ 6 then format_f 2 (x / 10 ^ 6) @ ''ms''
               else if x \<ge> 10 ^ 3 then format_f 2 (x / 10 ^ 3) @ micro_sign @ ''s''
               else format_f 0 x @ ''ns''))"

text \<open>
  \<^verbatim>\<open>generate_markdown\<close>, lines 105-178, in the order of the source. The summary block,
  lines 114-130: the lines appended from \<^verbatim>\<open>### Summary\<close> to the empty line before the
  table.
\<close>

definition summary_lines :: "comparison list \<Rightarrow> string list" where
  "summary_lines comparisons =
     (let regressions = filter (\<lambda>c. status c = Regression) comparisons;
          improvements = filter (\<lambda>c. status c = Improvement) comparisons;
          unchanged = filter (\<lambda>c. status c = Unchanged) comparisons;
          new_benchmarks = filter (\<lambda>c. status c = New) comparisons
      in [''### Summary'', '''']
         @ (if regressions \<noteq> []
            then [red_circle @ '' **'' @ show_nat (length regressions) @ '' regressions detected**'']
            else [])
         @ (if improvements \<noteq> []
            then [green_circle @ '' **'' @ show_nat (length improvements) @ '' improvements**'']
            else [])
         @ [white_circle @ '' '' @ show_nat (length unchanged) @ '' unchanged'']
         @ (if new_benchmarks \<noteq> []
            then [new_sign @ '' '' @ show_nat (length new_benchmarks) @ '' new benchmarks'']
            else [])
         @ [''''])"

text \<open>
  \<^verbatim>\<open>c['baseline'].get('mean_ns', 0)\<close>: Python's \<^verbatim>\<open>None\<close> has no \<^verbatim>\<open>get\<close>.
\<close>

definition get_mean_ns :: "json option \<Rightarrow> fault + json" where
  "get_mean_ns entry =
     (case entry of
        None \<Rightarrow> Inl AttributeError
      | Some e \<Rightarrow> dict_get e ''mean_ns'' (JNum 0))"

text \<open>The body of the loop of lines 138-165: the table row of one record.\<close>

definition detail_row :: "comparison \<Rightarrow> fault + string" where
  "detail_row c =
     (if status c = New then
        (case get_mean_ns (current c) of
           Inl e \<Rightarrow> Inl e
         | Inr curr_mean \<Rightarrow>
             (case format_duration curr_mean of
                Inl e \<Rightarrow> Inl e
              | Inr cur \<Rightarrow>
                  Inr (''| '' @ name c @ '' | - | '' @ cur @ '' | '' @ new_sign @ '' NEW |'')))
      else if status c = Removed then
        (case get_mean_ns (baseline c) of
           Inl e \<Rightarrow> Inl e
         | Inr base_mean \<Rightarrow>
             (case format_duration base_mean of
                Inl e \<Rightarrow> Inl e
              | Inr base \<Rightarrow>
                  Inr (''| '' @ name c @ '' | '' @ base @ '' | - | '' @ cross_mark @ '' REMOVED |'')))
      else
        (case get_mean_ns (baseline c) of
           Inl e \<Rightarrow> Inl e
         | Inr base_mean \<Rightarrow>
        (case get_mean_ns (current c) of
           Inl e \<Rightarrow> Inl e
         | Inr curr_mean \<Rightarrow>
        (let change = change_percent c;
             icon = (if status c = Regression then red_circle @ '' REGRESSION''
                     else if status c = Improvement then green_circle
                     else '''');
             change_str = (if status c = Regression then ''+'' @ format_f 1 change @ ''%''
                           else if status c = Improvement then format_f 1 change @ ''%''
                           else format_signed_f 1 change @ ''%'')
         in case format_duration base_mean of
              Inl e \<Rightarrow> Inl e
            | Inr base \<Rightarrow>
                (case format_duration curr_mean of
                   Inl e \<Rightarrow> Inl e
                 | Inr cur \<Rightarrow>
                     Inr (''| '' @ name c @ '' | '' @ base @ '' | '' @ cur @ '' | ''
                          @ change_str @ '' '' @ icon @ '' |''))))))"

text \<open>The loop \<^verbatim>\<open>for c in comparisons\<close>: the first exception ends it.\<close>

fun detail_rows :: "comparison list \<Rightarrow> fault + string list" where
  "detail_rows [] = Inr []"
| "detail_rows (c # cs) =
     (case detail_row c of
        Inl e \<Rightarrow> Inl e
      | Inr row \<Rightarrow>
          (case detail_rows cs of
             Inl e \<Rightarrow> Inl e
           | Inr rows \<Rightarrow> Inr (row # rows)))"

text \<open>
  A value interpolated into an f-string with no format: \<^verbatim>\<open>str\<close> of it. A string is
  itself; \<^verbatim>\<open>str\<close> of a number depends on whether it is an \<^verbatim>\<open>int\<close> or a \<^verbatim>\<open>float\<close>,
  and \<^verbatim>\<open>str\<close> of a list or a dict on the \<^verbatim>\<open>repr\<close> of its elements: both are outside
  the model.
\<close>

fun py_str :: "json \<Rightarrow> fault + string" where
  "py_str (JStr s) = Inr s"
| "py_str JNull = Inr ''None''"
| "py_str (JBool b) = Inr (if b then ''True'' else ''False'')"
| "py_str _ = Inl Outside_Model"

text \<open>
  \<^verbatim>\<open>{info.get('version', 'unknown')} @ {info.get('timestamp', 'unknown')}\<close>, lines
  173-174.
\<close>

definition run_label :: "json \<Rightarrow> fault + string" where
  "run_label info =
     (case dict_get info ''version'' (JStr ''unknown'') of
        Inl e \<Rightarrow> Inl e
      | Inr version \<Rightarrow>
     (case py_str version of
        Inl e \<Rightarrow> Inl e
      | Inr v \<Rightarrow>
     (case dict_get info ''timestamp'' (JStr ''unknown'') of
        Inl e \<Rightarrow> Inl e
      | Inr timestamp \<Rightarrow>
     (case py_str timestamp of
        Inl e \<Rightarrow> Inl e
      | Inr ts \<Rightarrow> Inr (v @ '' @ '' @ ts)))))"

text \<open>\<^verbatim>\<open>"\n".join(lines)\<close>.\<close>

fun join_lines :: "string list \<Rightarrow> string" where
  "join_lines [] = []"
| "join_lines [l] = l"
| "join_lines (l # m # ls) = l @ [CHR 0x0A] @ join_lines (m # ls)"

text \<open>The list \<^verbatim>\<open>lines\<close> when line 178 is reached, and the text returned.\<close>

definition markdown_lines :: "comparison list \<Rightarrow> json \<Rightarrow> json \<Rightarrow> fault + string list" where
  "markdown_lines comparisons baseline_info current_info =
     (case detail_rows comparisons of
        Inl e \<Rightarrow> Inl e
      | Inr rows \<Rightarrow>
     (case run_label baseline_info of
        Inl e \<Rightarrow> Inl e
      | Inr base_label \<Rightarrow>
     (case run_label current_info of
        Inl e \<Rightarrow> Inl e
      | Inr curr_label \<Rightarrow>
          Inr (summary_lines comparisons
               @ [''### Details'', '''',
                  ''| Benchmark | Baseline | Current | Change |'',
                  ''|-----------|----------|---------|--------|'']
               @ rows
               @ ['''',
                  ''<details>'',
                  ''<summary>Run Information</summary>'',
                  '''',
                  ''- Baseline: '' @ base_label,
                  ''- Current: '' @ curr_label,
                  '''',
                  ''</details>'']))))"

definition generate_markdown :: "comparison list \<Rightarrow> json \<Rightarrow> json \<Rightarrow> fault + string" where
  "generate_markdown comparisons baseline_info current_info =
     (case markdown_lines comparisons baseline_info current_info of
        Inl e \<Rightarrow> Inl e
      | Inr lines \<Rightarrow> Inr (join_lines lines))"

section \<open>The loader and the command line\<close>

text \<open>
  What the script sees of its environment: the text of each file that can be opened and
  read (\<open>None\<close> for a file that is missing or unreadable), which paths can be opened for
  writing, and what has been printed. \<^verbatim>\<open>json.load\<close> is Python's, not the script's: it
  is the parameter \<open>json_load\<close>, \<open>None\<close> where it raises \<^verbatim>\<open>JSONDecodeError\<close>.
\<close>

record world =
  files :: "string \<Rightarrow> string option"
  writable :: "string \<Rightarrow> bool"
  stdout :: "string list"

text \<open>\<^verbatim>\<open>load_results(path)\<close>, lines 14-17: no exception is caught.\<close>

definition load_results :: "(string \<Rightarrow> json option) \<Rightarrow> world \<Rightarrow> string \<Rightarrow> fault + json" where
  "load_results json_load w path =
     (case files w path of
        None \<Rightarrow> Inl OSError
      | Some text \<Rightarrow>
          (case json_load text of
             None \<Rightarrow> Inl JSONDecodeError
           | Some doc \<Rightarrow> Inr doc))"

text \<open>The parsed command line, lines 182-191.\<close>

record args =
  arg_baseline :: string
  arg_current :: string
  arg_output :: string
  arg_threshold :: real
  arg_fail_on_regression :: bool

text \<open>
  How the process ends: \<^verbatim>\<open>sys.exit(n)\<close> or the end of \<^verbatim>\<open>main\<close> (\<open>Exit 0\<close>), or an
  exception nobody catches, on which Python prints the traceback and exits with code 1.
\<close>

datatype exit = Exit nat | Uncaught fault

definition exit_code :: "exit \<Rightarrow> nat" where
  "exit_code x = (case x of Exit n \<Rightarrow> n | Uncaught e \<Rightarrow> 1)"

text \<open>Lines 193-198 of \<^verbatim>\<open>main\<close>: the two documents, the records and the report.\<close>

definition build_report ::
  "(string \<Rightarrow> json option) \<Rightarrow> args \<Rightarrow> world \<Rightarrow> fault + (comparison list \<times> string)" where
  "build_report json_load a w =
     (case load_results json_load w (arg_baseline a) of
        Inl e \<Rightarrow> Inl e
      | Inr baseline_doc \<Rightarrow>
     (case load_results json_load w (arg_current a) of
        Inl e \<Rightarrow> Inl e
      | Inr current_doc \<Rightarrow>
     (case compare_benchmarks baseline_doc current_doc (arg_threshold a) of
        Inl e \<Rightarrow> Inl e
      | Inr comparisons \<Rightarrow>
     (case generate_markdown comparisons baseline_doc current_doc of
        Inl e \<Rightarrow> Inl e
      | Inr report \<Rightarrow> Inr (comparisons, report)))))"

text \<open>
  \<^verbatim>\<open>main\<close>, lines 181-211: the report is written, the confirmation is printed, and only
  then are the regressions looked at. Each \<^verbatim>\<open>print\<close> adds its argument to \<open>stdout\<close>.
\<close>

definition main :: "(string \<Rightarrow> json option) \<Rightarrow> args \<Rightarrow> world \<Rightarrow> exit \<times> world" where
  "main json_load a w =
     (case build_report json_load a w of
        Inl e \<Rightarrow> (Uncaught e, w)
      | Inr (comparisons, report) \<Rightarrow>
          if \<not> writable w (arg_output a) then (Uncaught OSError, w)
          else
            (let w1 = w\<lparr>files := (files w)(arg_output a \<mapsto> report),
                        stdout := stdout w @ [''Comparison report written to '' @ arg_output a]\<rparr>;
                 regressions = filter (\<lambda>c. status c = Regression) comparisons
             in if regressions \<noteq> [] \<and> arg_fail_on_regression a then
                  (Exit 1,
                   w1\<lparr>stdout := stdout w1
                        @ [[CHR 0x0A] @ warning_sign @ ''  '' @ show_nat (length regressions)
                           @ '' regressions detected!'']
                        @ map (\<lambda>r. ''  - '' @ name r @ '': +'' @ format_f 1 (change_percent r) @ ''%'')
                            regressions\<rparr>)
                else (Exit 0, w1)))"

section \<open>Example documents\<close>

text \<open>
  Two small runs on which the theorems are instantiated: \<open>parse\<close> occurs twice in the
  baseline (the later entry wins), \<open>zero\<close> has no \<^verbatim>\<open>mean_ns\<close> in the baseline, \<open>old\<close>
  is only in the baseline and \<open>added\<close> only in the current run.
\<close>

definition example_baseline :: json where
  "example_baseline =
     JObj [(''version'', JStr ''1.0''), (''benchmarks'', JArr [
       JObj [(''name'', JStr ''parse''), (''mean_ns'', JNum 1000000)],
       JObj [(''name'', JStr ''old''), (''mean_ns'', JNum 5)],
       JObj [(''name'', JStr ''zero'')],
       JObj [(''name'', JStr ''parse''), (''mean_ns'', JNum 2000000)]])]"

definition example_current :: json where
  "example_current =
     JObj [(''benchmarks'', JArr [
       JObj [(''name'', JStr ''zero''), (''mean_ns'', JNum 7)],
       JObj [(''name'', JStr ''parse''), (''mean_ns'', JNum 2300000)],
       JObj [(''name'', JStr ''added''), (''mean_ns'', JNum 1500)]])]"

text \<open>
  The records the comparator returns for the example documents at threshold 10, the
  report rendered from them, and a run of the whole script: two files holding the two
  documents (the parser maps the text \<open>BASE\<close> to the baseline document and \<open>CUR\<close> to the
  current one), and a second run that reads the same documents from other paths, with
  another output path, without the regression-fail flag and after earlier output.
\<close>

definition example_comparisons :: "comparison list" where
  "example_comparisons =
     [\<lparr>name = ''added'', status = New, baseline = None,
        current = Some (JObj [(''name'', JStr ''added''), (''mean_ns'', JNum 1500)]),
        change_percent = 0\<rparr>,
      \<lparr>name = ''old'', status = Removed,
        baseline = Some (JObj [(''name'', JStr ''old''), (''mean_ns'', JNum 5)]),
        current = None, change_percent = 0\<rparr>,
      \<lparr>name = ''parse'', status = Regression,
        baseline = Some (JObj [(''name'', JStr ''parse''), (''mean_ns'', JNum 2000000)]),
        current = Some (JObj [(''name'', JStr ''parse''), (''mean_ns'', JNum 2300000)]),
        change_percent = 15\<rparr>,
      \<lparr>name = ''zero'', status = Unchanged,
        baseline = Some (JObj [(''name'', JStr ''zero'')]),
        current = Some (JObj [(''name'', JStr ''zero''), (''mean_ns'', JNum 7)]),
        change_percent = 0\<rparr>]"

definition example_report :: string where
  "example_report = join_lines
     [''### Summary'', '''',
      red_circle @ '' **1 regressions detected**'',
      white_circle @ '' 1 unchanged'',
      new_sign @ '' 1 new benchmarks'',
      '''',
      ''### Details'', '''',
      ''| Benchmark | Baseline | Current | Change |'',
      ''|-----------|----------|---------|--------|'',
      ''| added | - | 1.50'' @ micro_sign @ ''s | '' @ new_sign @ '' NEW |'',
      ''| old | 5ns | - | '' @ cross_mark @ '' REMOVED |'',
      ''| parse | 2.00ms | 2.30ms | +15.0% '' @ red_circle @ '' REGRESSION |'',
      ''| zero | 0ns | 7ns | +0.0%  |'',
      '''',
      ''<details>'',
      ''<summary>Run Information</summary>'',
      '''',
      ''- Baseline: 1.0 @ unknown'',
      ''- Current: unknown @ unknown'',
      '''',
      ''</details>'']"

definition example_loader :: "string \<Rightarrow> json option" where
  "example_loader content =
     (if content = ''BASE'' then Some example_baseline
      else if content = ''CUR'' then Some example_current
      else None)"

definition example_world :: world where
  "example_world =
     \<lparr>files = (\<lambda>p. if p = ''base.json'' then Some ''BASE''
                   else if p = ''cur.json'' then Some ''CUR'' else None),
      writable = (\<lambda>p. p = ''comparison.md''),
      stdout = []\<rparr>"

definition example_args :: args where
  "example_args =
     \<lparr>arg_baseline = ''base.json'', arg_current = ''cur.json'', arg_output = ''comparison.md'',
      arg_threshold = 10, arg_fail_on_regression = True\<rparr>"



section \<open>Lemmas about the comparator\<close>

lemma subscript_name_str:
  "subscript_name b = Inr (JStr s) \<Longrightarrow> entry_name b = s"
  by (cases b) (auto simp: entry_name_def split: option.splits)

lemma index_by_name_lookup:
  "index_by_name bs d = Inr d' \<Longrightarrow>
   map_of d' n = (case latest bs n of Some b \<Rightarrow> Some b | None \<Rightarrow> map_of d n)"
proof (induction bs arbitrary: d)
  case Nil
  then show ?case by simp
next
  case (Cons b bs)
  from Cons.prems obtain v k where v: "subscript_name b = Inr v" and k: "dict_key v = Inr k"
    and rest: "index_by_name bs (AList.update k b d) = Inr d'"
    by (auto split: sum.splits)
  from k have "v = JStr k" by (cases v) auto
  with v have nm: "entry_name b = k" by (simp add: subscript_name_str)
  from Cons.IH[OF rest] nm show ?case
    by (auto simp: update_conv' split: option.splits)
qed

lemma index_by_name_keys:
  "index_by_name bs d = Inr d' \<Longrightarrow> fst ` set d' = fst ` set d \<union> entry_name ` set bs"
proof (induction bs arbitrary: d)
  case Nil
  then show ?case by simp
next
  case (Cons b bs)
  from Cons.prems obtain v k where v: "subscript_name b = Inr v" and k: "dict_key v = Inr k"
    and rest: "index_by_name bs (AList.update k b d) = Inr d'"
    by (auto split: sum.splits)
  from k have "v = JStr k" by (cases v) auto
  with v have nm: "entry_name b = k" by (simp add: subscript_name_str)
  from Cons.IH[OF rest] nm show ?case
    by (auto simp: dom_update)
qed


lemma wf_entry_mean: "wf_entry b \<Longrightarrow> dict_get b ''mean_ns'' (JNum 0) = Inr (JNum (mean_ns b))"
  by (cases b) (auto simp: mean_ns_def split: option.splits json.splits)


lemma latest_mem: "latest bs n = Some b \<Longrightarrow> b \<in> set bs \<and> entry_name b = n"
  by (induction bs) (auto split: option.splits if_splits)

lemma latest_None: "latest bs n = None \<longleftrightarrow> n \<notin> entry_name ` set bs"
  by (induction bs) (auto split: option.splits if_splits)


lemma compare_name_name: "compare_name bb cb t n = Inr r \<Longrightarrow> name r = n"
  by (auto simp: compare_name_def Let_def split: option.splits sum.splits)

lemma compare_name_new:
  "map_of bb n = None \<Longrightarrow>
   compare_name bb cb t n =
     Inr \<lparr>name = n, status = New, baseline = None, current = map_of cb n, change_percent = 0\<rparr>"
  by (simp add: compare_name_def)

lemma compare_name_removed:
  "map_of bb n = Some b \<Longrightarrow> map_of cb n = None \<Longrightarrow>
   compare_name bb cb t n =
     Inr \<lparr>name = n, status = Removed, baseline = Some b, current = None, change_percent = 0\<rparr>"
  by (simp add: compare_name_def)


lemma compare_names_iff:
  "compare_names bb cb t ns = Inr recs \<longleftrightarrow>
   list_all2 (\<lambda>n r. compare_name bb cb t n = Inr r) ns recs"
proof (induction ns arbitrary: recs)
  case Nil
  then show ?case by auto
next
  case (Cons n ns)
  show ?case
    by (auto simp: list_all2_Cons1 Cons.IH[symmetric] split: sum.splits)
qed


lemma doc_index:
  assumes "dict_get doc ''benchmarks'' (JArr []) = Inr bl" and "benchmark_index bl = Inr bb"
  shows "map_of bb n = latest (entries doc) n"
    and "set (map fst bb) = entry_name ` set (entries doc)"
proof -
  from assms(1) obtain kvs where doc: "doc = JObj kvs"
    and bl: "bl = (case map_of kvs ''benchmarks'' of None \<Rightarrow> JArr [] | Some v \<Rightarrow> v)"
    by (cases doc) auto
  have "map_of bb n = latest (entries doc) n \<and> set (map fst bb) = entry_name ` set (entries doc)"
  proof (cases bl)
    case (JArr bs)
    with bl doc have e: "entries doc = bs"
      by (auto simp: entries_def split: option.splits)
    from assms(2) JArr have i: "index_by_name bs [] = Inr bb" by simp
    from index_by_name_lookup[OF i, of n] index_by_name_keys[OF i] e show ?thesis
      by (simp split: option.splits)
  next
    case (JStr x)
    with assms(2) have "bb = []" by (simp split: if_splits)
    moreover from bl doc JStr have "entries doc = []"
      by (auto simp: entries_def split: option.splits)
    ultimately show ?thesis by simp
  next
    case (JObj x)
    with assms(2) have "bb = []" by (simp split: if_splits)
    moreover from bl doc JObj have "entries doc = []"
      by (auto simp: entries_def split: option.splits)
    ultimately show ?thesis by simp
  qed (use assms(2) in auto)
  then show "map_of bb n = latest (entries doc) n"
    and "set (map fst bb) = entry_name ` set (entries doc)" by simp_all
qed

lemma wf_doc_entries: "wf_doc doc \<Longrightarrow> list_all wf_entry (entries doc)"
  by (cases doc) (auto simp: entries_def split: option.splits json.splits)



lemma latest_wf: "list_all wf_entry bs \<Longrightarrow> latest bs n = Some b \<Longrightarrow> wf_entry b"
  using latest_mem[of bs n b] by (auto simp: list_all_iff)

lemma compare_benchmarks_Inr:
  assumes "compare_benchmarks bdoc cdoc t = Inr recs"
  shows "\<exists>bb cb.
    (\<forall>n. map_of bb n = latest (entries bdoc) n) \<and>
    (\<forall>n. map_of cb n = latest (entries cdoc) n) \<and>
    all_names bb cb = entry_name ` set (entries bdoc) \<union> entry_name ` set (entries cdoc) \<and>
    list_all2 (\<lambda>n r. compare_name bb cb t n = Inr r) (sorted_list_of_set (all_names bb cb)) recs"
proof -
  from assms obtain bl bb cl cb where
    1: "dict_get bdoc ''benchmarks'' (JArr []) = Inr bl" "benchmark_index bl = Inr bb"
    and 2: "dict_get cdoc ''benchmarks'' (JArr []) = Inr cl" "benchmark_index cl = Inr cb"
    and 3: "compare_names bb cb t (sorted_list_of_set (all_names bb cb)) = Inr recs"
    by (auto simp: compare_benchmarks_def split: sum.splits)
  have "\<forall>n. map_of bb n = latest (entries bdoc) n"
    by (simp add: doc_index(1)[OF 1])
  moreover have "\<forall>n. map_of cb n = latest (entries cdoc) n"
    by (simp add: doc_index(1)[OF 2])
  moreover have "all_names bb cb = entry_name ` set (entries bdoc) \<union> entry_name ` set (entries cdoc)"
    by (simp only: all_names_def doc_index(2)[OF 1] doc_index(2)[OF 2])
  moreover have "list_all2 (\<lambda>n r. compare_name bb cb t n = Inr r) (sorted_list_of_set (all_names bb cb)) recs"
    using 3 by (simp only: compare_names_iff)
  ultimately show ?thesis by blast
qed



lemma compare_benchmarks_record:
  assumes "compare_benchmarks bdoc cdoc t = Inr recs"
  shows "\<exists>bb cb.
    (\<forall>n. map_of bb n = latest (entries bdoc) n) \<and>
    (\<forall>n. map_of cb n = latest (entries cdoc) n) \<and>
    (\<forall>r. r \<in> set recs \<longleftrightarrow>
       (\<exists>n. n \<in> entry_name ` set (entries bdoc) \<union> entry_name ` set (entries cdoc) \<and>
          compare_name bb cb t n = Inr r))"
proof -
  from compare_benchmarks_Inr[OF assms] obtain bb cb where
    lb: "\<forall>n. map_of bb n = latest (entries bdoc) n"
    and lc: "\<forall>n. map_of cb n = latest (entries cdoc) n"
    and names: "all_names bb cb = entry_name ` set (entries bdoc) \<union> entry_name ` set (entries cdoc)"
    and all2: "list_all2 (\<lambda>n r. compare_name bb cb t n = Inr r) (sorted_list_of_set (all_names bb cb)) recs"
    by (elim exE conjE)
  let ?ns = "sorted_list_of_set (all_names bb cb)"
  have fin: "finite (all_names bb cb)" by (simp add: all_names_def)
  then have set_ns: "set ?ns = all_names bb cb" by simp
  from all2 have len: "length ?ns = length recs"
    and nth: "\<And>i. i < length recs \<Longrightarrow> compare_name bb cb t (?ns ! i) = Inr (recs ! i)"
    by (simp_all add: list_all2_conv_all_nth)
  have "r \<in> set recs \<longleftrightarrow> (\<exists>n. n \<in> all_names bb cb \<and> compare_name bb cb t n = Inr r)" for r
  proof
    assume "r \<in> set recs"
    then obtain i where i: "i < length recs" "recs ! i = r" by (auto simp: in_set_conv_nth)
    from i len have "?ns ! i \<in> set ?ns" by simp
    with set_ns have "?ns ! i \<in> all_names bb cb" by simp
    moreover from nth[OF i(1)] i(2) have "compare_name bb cb t (?ns ! i) = Inr r" by simp
    ultimately show "\<exists>n. n \<in> all_names bb cb \<and> compare_name bb cb t n = Inr r" by blast
  next
    assume "\<exists>n. n \<in> all_names bb cb \<and> compare_name bb cb t n = Inr r"
    then obtain n where n: "n \<in> set ?ns" and r: "compare_name bb cb t n = Inr r"
      using set_ns by auto
    from n obtain i where i: "i < length ?ns" "?ns ! i = n" by (auto simp: in_set_conv_nth)
    from i len have il: "i < length recs" by simp
    from nth[OF il] i(2) r have "recs ! i = r" by simp
    with il show "r \<in> set recs" by auto
  qed
  then have "\<forall>r. r \<in> set recs \<longleftrightarrow>
       (\<exists>n. n \<in> entry_name ` set (entries bdoc) \<union> entry_name ` set (entries cdoc) \<and>
          compare_name bb cb t n = Inr r)"
    unfolding names by blast
  with lb lc show ?thesis by blast
qed






lemma compare_name_both_fields:
  assumes "map_of bb n = Some b" and "map_of cb n = Some c" and "compare_name bb cb t n = Inr r"
  shows "baseline r = Some b \<and> current r = Some c \<and>
         (status r = Regression \<or> status r = Improvement \<or> status r = Unchanged)"
proof -
  from assms obtain change where
    "r = \<lparr>name = n,
          status = (if change > t then Regression
                    else if change < - t then Improvement else Unchanged),
          baseline = Some b, current = Some c, change_percent = change\<rparr>"
    by (auto simp: compare_name_def Let_def split: sum.splits)
  then show ?thesis by simp
qed


lemma record_references:
  assumes "compare_benchmarks bdoc cdoc t = Inr recs" and "r \<in> set recs"
  shows "(baseline r = None \<longleftrightarrow> status r = New) \<and>
         (current r = None \<longleftrightarrow> status r = Removed) \<and>
         (status r = Regression \<or> status r = Improvement \<or> status r = Unchanged \<longrightarrow>
            (\<exists>b c. baseline r = Some b \<and> current r = Some c \<and>
               latest (entries bdoc) (name r) = Some b \<and>
               latest (entries cdoc) (name r) = Some c)) \<and>
         (status r = New \<longrightarrow> current r = latest (entries cdoc) (name r)) \<and>
         (status r = Removed \<longrightarrow> baseline r = latest (entries bdoc) (name r))"
proof -
  from compare_benchmarks_record[OF assms(1)] obtain bb cb where
    lb: "\<forall>n. map_of bb n = latest (entries bdoc) n"
    and lc: "\<forall>n. map_of cb n = latest (entries cdoc) n"
    and mem: "\<forall>r. r \<in> set recs \<longleftrightarrow>
       (\<exists>n. n \<in> entry_name ` set (entries bdoc) \<union> entry_name ` set (entries cdoc) \<and>
          compare_name bb cb t n = Inr r)"
    by (elim exE conjE)
  from mem assms(2) obtain n where
    n: "n \<in> entry_name ` set (entries bdoc) \<union> entry_name ` set (entries cdoc)"
    and r: "compare_name bb cb t n = Inr r" by blast
  from n have some: "latest (entries bdoc) n \<noteq> None \<or> latest (entries cdoc) n \<noteq> None"
    by (auto simp: latest_None)
  from compare_name_name[OF r] have nm: "name r = n" .
  show ?thesis
  proof (cases "latest (entries bdoc) n")
    case None
    with some obtain c where c: "latest (entries cdoc) n = Some c" by auto
    from None lb have "map_of bb n = None" by simp
    from compare_name_new[OF this, of cb t] r c lc nm show ?thesis by auto
  next
    case (Some b)
    note b = this
    show ?thesis
    proof (cases "latest (entries cdoc) n")
      case None
      from b lb have "map_of bb n = Some b" by simp
      moreover from None lc have "map_of cb n = None" by simp
      ultimately show ?thesis using compare_name_removed[of bb n b cb t] r b None nm by auto
    next
      case (Some c)
      from b lb have "map_of bb n = Some b" by simp
      moreover from Some lc have "map_of cb n = Some c" by simp
      ultimately have "baseline r = Some b \<and> current r = Some c \<and>
         (status r = Regression \<or> status r = Improvement \<or> status r = Unchanged)"
        using r by (rule compare_name_both_fields)
      with b Some nm show ?thesis by auto
    qed
  qed
qed

section \<open>Lemmas about the reporter\<close>

lemma format_duration_num: "\<exists>s. format_duration (JNum x) = Inr s"
  by (simp add: format_duration_def)

lemma get_mean_ns_wf: "wf_entry e \<Longrightarrow> get_mean_ns (Some e) = Inr (JNum (mean_ns e))"
  by (simp add: get_mean_ns_def wf_entry_mean)

lemma detail_row_total:
  assumes "status r = New \<longrightarrow> (\<exists>c. current r = Some c \<and> wf_entry c)"
    and "status r = Removed \<longrightarrow> (\<exists>b. baseline r = Some b \<and> wf_entry b)"
    and "status r \<noteq> New \<and> status r \<noteq> Removed \<longrightarrow>
           (\<exists>b c. baseline r = Some b \<and> wf_entry b \<and> current r = Some c \<and> wf_entry c)"
  shows "\<exists>row. detail_row r = Inr row"
proof -
  consider "status r = New" | "status r = Removed" | "status r \<noteq> New \<and> status r \<noteq> Removed"
    by blast
  then show ?thesis
  proof cases
    case 1
    with assms(1) obtain c where c: "current r = Some c" "wf_entry c" by blast
    from format_duration_num[of "mean_ns c"] obtain s where
      "format_duration (JNum (mean_ns c)) = Inr s" ..
    with 1 c show ?thesis by (simp add: detail_row_def get_mean_ns_wf)
  next
    case 2
    with assms(2) obtain b where b: "baseline r = Some b" "wf_entry b" by blast
    from format_duration_num[of "mean_ns b"] obtain s where
      "format_duration (JNum (mean_ns b)) = Inr s" ..
    with 2 b show ?thesis by (simp add: detail_row_def get_mean_ns_wf)
  next
    case 3
    with assms(3) obtain b c where bc: "baseline r = Some b" "wf_entry b"
      "current r = Some c" "wf_entry c" by blast
    from format_duration_num[of "mean_ns b"] obtain s where
      s: "format_duration (JNum (mean_ns b)) = Inr s" ..
    from format_duration_num[of "mean_ns c"] obtain s' where
      s': "format_duration (JNum (mean_ns c)) = Inr s'" ..
    from 3 bc s s' show ?thesis by (simp add: detail_row_def get_mean_ns_wf Let_def)
  qed
qed

lemma detail_rows_iff:
  "detail_rows cs = Inr rows \<longleftrightarrow> list_all2 (\<lambda>c row. detail_row c = Inr row) cs rows"
proof (induction cs arbitrary: rows)
  case Nil
  then show ?case by auto
next
  case (Cons c cs)
  show ?case
    by (auto simp: list_all2_Cons1 Cons.IH[symmetric] split: sum.splits)
qed

lemma detail_rows_total:
  "(\<And>c. c \<in> set cs \<Longrightarrow> \<exists>row. detail_row c = Inr row) \<Longrightarrow> \<exists>rows. detail_rows cs = Inr rows"
  by (induction cs) (fastforce split: sum.splits)+

lemma run_label_total: "wf_labels doc \<Longrightarrow> \<exists>l. run_label doc = Inr l"
  by (cases doc) (auto simp: run_label_def split: option.splits json.splits)

lemma detail_row_prefix:
  "detail_row c = Inr row \<Longrightarrow> \<exists>rest. row = ''| '' @ name c @ '' | '' @ rest"
  by (auto simp: detail_row_def Let_def split: if_splits sum.splits)

text \<open>
  The renderer returns on every list the comparator returns for well-formed documents
  with string labels: each record then refers to the entries its row reads.
\<close>

lemma generate_markdown_total:
  assumes wf: "wf_doc bdoc" "wf_doc cdoc" and lb: "wf_labels bdoc" "wf_labels cdoc"
    and recs: "compare_benchmarks bdoc cdoc t = Inr recs"
  shows "\<exists>report. generate_markdown recs bdoc cdoc = Inr report"
proof -
  have "\<exists>row. detail_row r = Inr row" if r: "r \<in> set recs" for r
  proof (rule detail_row_total)
    note inv = record_references[OF recs r]
    have wb: "wf_entry b" if "latest (entries bdoc) n = Some b" for n b
      using that by (rule latest_wf[OF wf_doc_entries[OF wf(1)]])
    have wc: "wf_entry c" if "latest (entries cdoc) n = Some c" for n c
      using that by (rule latest_wf[OF wf_doc_entries[OF wf(2)]])
    show "status r = New \<longrightarrow> (\<exists>c. current r = Some c \<and> wf_entry c)"
    proof
      assume n: "status r = New"
      from inv have i: "current r = None \<longleftrightarrow> status r = Removed"
        and j: "status r = New \<longrightarrow> current r = latest (entries cdoc) (name r)"
        by blast+
      from i n have ne: "current r \<noteq> None" by simp
      from j n have eq: "current r = latest (entries cdoc) (name r)" by simp
      from ne obtain c where c: "current r = Some c" by (cases "current r") auto
      with eq have "latest (entries cdoc) (name r) = Some c" by simp
      then have "wf_entry c" by (rule wc)
      with c show "\<exists>c. current r = Some c \<and> wf_entry c" by blast
    qed
    show "status r = Removed \<longrightarrow> (\<exists>b. baseline r = Some b \<and> wf_entry b)"
    proof
      assume n: "status r = Removed"
      from inv have i: "baseline r = None \<longleftrightarrow> status r = New"
        and j: "status r = Removed \<longrightarrow> baseline r = latest (entries bdoc) (name r)"
        by blast+
      from i n have ne: "baseline r \<noteq> None" by simp
      from j n have eq: "baseline r = latest (entries bdoc) (name r)" by simp
      from ne obtain b where b: "baseline r = Some b" by (cases "baseline r") auto
      with eq have "latest (entries bdoc) (name r) = Some b" by simp
      then have "wf_entry b" by (rule wb)
      with b show "\<exists>b. baseline r = Some b \<and> wf_entry b" by blast
    qed
    show "status r \<noteq> New \<and> status r \<noteq> Removed \<longrightarrow>
           (\<exists>b c. baseline r = Some b \<and> wf_entry b \<and> current r = Some c \<and> wf_entry c)"
    proof
      assume "status r \<noteq> New \<and> status r \<noteq> Removed"
      then have "status r = Regression \<or> status r = Improvement \<or> status r = Unchanged"
        by (cases "status r") auto
      with inv obtain b c where "baseline r = Some b" "current r = Some c"
        "latest (entries bdoc) (name r) = Some b" "latest (entries cdoc) (name r) = Some c"
        by blast
      with wb wc show "\<exists>b c. baseline r = Some b \<and> wf_entry b \<and> current r = Some c \<and> wf_entry c"
        by blast
    qed
  qed
  then obtain rows where rows: "detail_rows recs = Inr rows"
    using detail_rows_total[of recs] by blast
  from run_label_total[OF lb(1)] obtain l1 where l1: "run_label bdoc = Inr l1" ..
  from run_label_total[OF lb(2)] obtain l2 where l2: "run_label cdoc = Inr l2" ..
  from rows l1 l2 show ?thesis
    by (simp add: generate_markdown_def markdown_lines_def)
qed

lemma summary_lines_no_removed:
  "summary_lines (filter (\<lambda>c. status c \<noteq> Removed) cs) = summary_lines cs"
proof -
  have "filter (\<lambda>c. status c = s) (filter (\<lambda>c. status c \<noteq> Removed) cs)
        = filter (\<lambda>c. status c = s) cs" if "s \<noteq> Removed" for s
    using that by (induction cs) auto
  then show ?thesis by (simp add: summary_lines_def)
qed

lemma summary_lines_eq:
  "summary_lines cs =
     [''### Summary'', '''']
     @ (if \<exists>c\<in>set cs. status c = Regression
        then [red_circle @ '' **'' @ show_nat (length (filter (\<lambda>c. status c = Regression) cs))
              @ '' regressions detected**'']
        else [])
     @ (if \<exists>c\<in>set cs. status c = Improvement
        then [green_circle @ '' **'' @ show_nat (length (filter (\<lambda>c. status c = Improvement) cs))
              @ '' improvements**'']
        else [])
     @ [white_circle @ '' '' @ show_nat (length (filter (\<lambda>c. status c = Unchanged) cs))
        @ '' unchanged'']
     @ (if \<exists>c\<in>set cs. status c = New
        then [new_sign @ '' '' @ show_nat (length (filter (\<lambda>c. status c = New) cs))
              @ '' new benchmarks'']
        else [])
     @ ['''']"
  by (simp add: summary_lines_def Let_def filter_empty_conv)

lemma detail_rows_prefix:
  assumes "detail_rows cs = Inr rows"
  shows "list_all2 (\<lambda>c row. detail_row c = Inr row \<and> (\<exists>rest. row = ''| '' @ name c @ '' | '' @ rest))
           cs rows"
proof -
  from assms have "list_all2 (\<lambda>c row. detail_row c = Inr row) cs rows"
    by (simp only: detail_rows_iff)
  then show ?thesis
    by (rule list_all2_mono) (blast dest: detail_row_prefix)
qed

section \<open>The comparator: statements\<close>











text \<open>
  Claim C10. Every record of a list the comparator returns (on any two JSON values, not
  only the well-formed ones) has no baseline reference exactly when it is new and no
  current reference exactly when it is removed; a regression, improvement or unchanged
  record refers to the entries of the two documents that win for its name, and so do
  the current reference of a new record and the baseline reference of a removed one.
\<close>

theorem reference_invariant:
  assumes "compare_benchmarks bdoc cdoc t = Inr recs" and "r \<in> set recs"
  shows "(baseline r = None \<longleftrightarrow> status r = New) \<and>
         (current r = None \<longleftrightarrow> status r = Removed) \<and>
         (status r = Regression \<or> status r = Improvement \<or> status r = Unchanged \<longrightarrow>
            (\<exists>b c. baseline r = Some b \<and> current r = Some c \<and>
               latest (entries bdoc) (name r) = Some b \<and>
               latest (entries cdoc) (name r) = Some c)) \<and>
         (status r = New \<longrightarrow> current r = latest (entries cdoc) (name r)) \<and>
         (status r = Removed \<longrightarrow> baseline r = latest (entries bdoc) (name r))"
  using assms by (rule record_references)

text \<open>
  The theorem at the \<open>parse\<close> record of the example documents.
\<close>

theorem reference_invariant_witness:
  "compare_benchmarks example_baseline example_current 10 = Inr
     [\<lparr>name = ''added'', status = New, baseline = None,
        current = Some (JObj [(''name'', JStr ''added''), (''mean_ns'', JNum 1500)]),
        change_percent = 0\<rparr>,
      \<lparr>name = ''old'', status = Removed,
        baseline = Some (JObj [(''name'', JStr ''old''), (''mean_ns'', JNum 5)]),
        current = None, change_percent = 0\<rparr>,
      \<lparr>name = ''parse'', status = Regression,
        baseline = Some (JObj [(''name'', JStr ''parse''), (''mean_ns'', JNum 2000000)]),
        current = Some (JObj [(''name'', JStr ''parse''), (''mean_ns'', JNum 2300000)]),
        change_percent = 15\<rparr>,
      \<lparr>name = ''zero'', status = Unchanged,
        baseline = Some (JObj [(''name'', JStr ''zero'')]),
        current = Some (JObj [(''name'', JStr ''zero''), (''mean_ns'', JNum 7)]),
        change_percent = 0\<rparr>] \<and>
   latest (entries example_baseline) ''parse'' =
     Some (JObj [(''name'', JStr ''parse''), (''mean_ns'', JNum 2000000)]) \<and>
   latest (entries example_current) ''parse'' =
     Some (JObj [(''name'', JStr ''parse''), (''mean_ns'', JNum 2300000)])"
proof -
  let ?r = "\<lparr>name = ''parse'', status = Regression,
        baseline = Some (JObj [(''name'', JStr ''parse''), (''mean_ns'', JNum 2000000)]),
        current = Some (JObj [(''name'', JStr ''parse''), (''mean_ns'', JNum 2300000)]),
        change_percent = 15\<rparr>"
  have 1: "compare_benchmarks example_baseline example_current 10 = Inr
     [\<lparr>name = ''added'', status = New, baseline = None,
        current = Some (JObj [(''name'', JStr ''added''), (''mean_ns'', JNum 1500)]),
        change_percent = 0\<rparr>,
      \<lparr>name = ''old'', status = Removed,
        baseline = Some (JObj [(''name'', JStr ''old''), (''mean_ns'', JNum 5)]),
        current = None, change_percent = 0\<rparr>,
      ?r,
      \<lparr>name = ''zero'', status = Unchanged,
        baseline = Some (JObj [(''name'', JStr ''zero'')]),
        current = Some (JObj [(''name'', JStr ''zero''), (''mean_ns'', JNum 7)]),
        change_percent = 0\<rparr>]"
    by code_simp
  from reference_invariant[OF 1, of ?r] 1 show ?thesis by simp
qed

section \<open>The loader and the reporter: statements\<close>




text \<open>
  Claim C8, the formatter at the inputs the claim names. 999, 2500000 and 3000000000
  render as the claim says. 1500 renders as \<open>1.50\<close> followed by the bytes
  \<open>C3 82 C2 B5\<close> and \<open>s\<close>, which is not \<open>1.50\<close>, the micro sign \<open>C2 B5\<close> and \<open>s\<close>.
\<close>

theorem micro_suffix_bytes:
  "format_duration (JNum 1500) = Inr (''1.50'' @ [CHR 0xC3, CHR 0x82, CHR 0xC2, CHR 0xB5] @ ''s'') \<and>
   format_duration (JNum 1500) \<noteq> Inr (''1.50'' @ [CHR 0xC2, CHR 0xB5] @ ''s'') \<and>
   format_duration (JNum 999) = Inr ''999ns'' \<and>
   format_duration (JNum 2500000) = Inr ''2.50ms'' \<and>
   format_duration (JNum 3000000000) = Inr ''3.00s''"
  by code_simp

text \<open>
  Claim C7, amended. Whenever the report is rendered, it is the lines of the summary
  block, the four lines of the table head, one row per record in the order of the
  records (each row is the record's own and starts with its name), and the eight lines
  of the footer, joined by newlines. The summary block has the line of the unchanged
  count always, and the lines of the regression, improvement and new counts only when
  a record of that status exists; it has no line for removed records, and does not
  change when the removed records are taken out of the list.
\<close>

theorem report_layout:
  assumes "generate_markdown cs baseline_info current_info = Inr report"
  shows "\<exists>rows footer.
           report = join_lines (summary_lines cs
             @ [''### Details'', '''',
                ''| Benchmark | Baseline | Current | Change |'',
                ''|-----------|----------|---------|--------|'']
             @ rows @ footer) \<and>
           list_all2 (\<lambda>c row. detail_row c = Inr row \<and>
                        (\<exists>rest. row = ''| '' @ name c @ '' | '' @ rest)) cs rows \<and>
           length footer = 8 \<and>
           summary_lines cs =
             [''### Summary'', '''']
             @ (if \<exists>c\<in>set cs. status c = Regression
                then [red_circle @ '' **''
                      @ show_nat (length (filter (\<lambda>c. status c = Regression) cs))
                      @ '' regressions detected**'']
                else [])
             @ (if \<exists>c\<in>set cs. status c = Improvement
                then [green_circle @ '' **''
                      @ show_nat (length (filter (\<lambda>c. status c = Improvement) cs))
                      @ '' improvements**'']
                else [])
             @ [white_circle @ '' '' @ show_nat (length (filter (\<lambda>c. status c = Unchanged) cs))
                @ '' unchanged'']
             @ (if \<exists>c\<in>set cs. status c = New
                then [new_sign @ '' '' @ show_nat (length (filter (\<lambda>c. status c = New) cs))
                      @ '' new benchmarks'']
                else [])
             @ [''''] \<and>
           summary_lines (filter (\<lambda>c. status c \<noteq> Removed) cs) = summary_lines cs"
proof -
  from assms obtain rows l1 l2 where rows: "detail_rows cs = Inr rows"
    and l1: "run_label baseline_info = Inr l1" and l2: "run_label current_info = Inr l2"
    and rep: "report = join_lines (summary_lines cs
             @ [''### Details'', '''',
                ''| Benchmark | Baseline | Current | Change |'',
                ''|-----------|----------|---------|--------|'']
             @ rows
             @ ['''', ''<details>'', ''<summary>Run Information</summary>'', '''',
                ''- Baseline: '' @ l1, ''- Current: '' @ l2, '''', ''</details>''])"
    by (auto simp: generate_markdown_def markdown_lines_def split: sum.splits)
  let ?footer = "['''', ''<details>'', ''<summary>Run Information</summary>'', '''',
                ''- Baseline: '' @ l1, ''- Current: '' @ l2, '''', ''</details>'']"
  have "length ?footer = 8" by simp
  with rep detail_rows_prefix[OF rows] summary_lines_eq[of cs] summary_lines_no_removed[of cs]
  show ?thesis by blast
qed

text \<open>
  The theorem at the records of the example documents: the report is the one written
  out in \<open>example_report\<close>, and its summary block has a regression line, the unchanged
  line and a new line, none for improvements and none for the removed record.
\<close>

theorem report_layout_witness:
  "generate_markdown example_comparisons example_baseline example_current = Inr example_report \<and>
   summary_lines example_comparisons =
     [''### Summary'', '''',
      red_circle @ '' **1 regressions detected**'',
      white_circle @ '' 1 unchanged'',
      new_sign @ '' 1 new benchmarks'',
      '''']"
proof -
  have 1: "generate_markdown example_comparisons example_baseline example_current
             = Inr example_report"
    by code_simp
  from report_layout[OF 1] obtain rows footer where
    "summary_lines example_comparisons =
             [''### Summary'', '''']
             @ (if \<exists>c\<in>set example_comparisons. status c = Regression
                then [red_circle @ '' **''
                      @ show_nat (length (filter (\<lambda>c. status c = Regression) example_comparisons))
                      @ '' regressions detected**'']
                else [])
             @ (if \<exists>c\<in>set example_comparisons. status c = Improvement
                then [green_circle @ '' **''
                      @ show_nat (length (filter (\<lambda>c. status c = Improvement) example_comparisons))
                      @ '' improvements**'']
                else [])
             @ [white_circle @ '' ''
                @ show_nat (length (filter (\<lambda>c. status c = Unchanged) example_comparisons))
                @ '' unchanged'']
             @ (if \<exists>c\<in>set example_comparisons. status c = New
                then [new_sign @ '' ''
                      @ show_nat (length (filter (\<lambda>c. status c = New) example_comparisons))
                      @ '' new benchmarks'']
                else [])
             @ ['''']"
    by (elim exE conjE) (rule that, assumption+)
  also have "\<dots> = [''### Summary'', '''',
      red_circle @ '' **1 regressions detected**'',
      white_circle @ '' 1 unchanged'',
      new_sign @ '' 1 new benchmarks'',
      '''']"
    by code_simp
  finally show ?thesis using 1 by simp
qed

text \<open>
  The claim as first stated, for every list of records, fails at the empty list: the
  summary block of the report has the unchanged line only.
\<close>

theorem empty_summary_counterexample:
  "generate_markdown [] (JObj []) (JObj []) = Inr (join_lines
     [''### Summary'', '''',
      white_circle @ '' 0 unchanged'',
      '''',
      ''### Details'', '''',
      ''| Benchmark | Baseline | Current | Change |'',
      ''|-----------|----------|---------|--------|'',
      '''',
      ''<details>'',
      ''<summary>Run Information</summary>'',
      '''',
      ''- Baseline: unknown @ unknown'',
      ''- Current: unknown @ unknown'',
      '''',
      ''</details>''])"
  by code_simp

text \<open>
  Claim C5. When the report has been built and the output path can be written, the
  report is in the output file and the confirmation is printed; the process then ends
  with code 1, after printing the warning and one line per regression with its name
  and percentage, when the regression-fail flag is set and some record is a
  regression, and with code 0, printing nothing more, in every other case.
\<close>

theorem exit_code_after_report:
  assumes "build_report json_load a w = Inr (comparisons, report)"
    and "writable w (arg_output a)"
  shows "files (snd (main json_load a w)) (arg_output a) = Some report \<and>
         (arg_fail_on_regression a \<and> (\<exists>c\<in>set comparisons. status c = Regression) \<longrightarrow>
            fst (main json_load a w) = Exit 1 \<and>
            exit_code (fst (main json_load a w)) \<noteq> 0 \<and>
            stdout (snd (main json_load a w)) =
              stdout w
              @ [''Comparison report written to '' @ arg_output a]
              @ [[CHR 0x0A] @ warning_sign @ ''  ''
                 @ show_nat (length (filter (\<lambda>c. status c = Regression) comparisons))
                 @ '' regressions detected!'']
              @ map (\<lambda>r. ''  - '' @ name r @ '': +'' @ format_f 1 (change_percent r) @ ''%'')
                  (filter (\<lambda>c. status c = Regression) comparisons)) \<and>
         (\<not> (arg_fail_on_regression a \<and> (\<exists>c\<in>set comparisons. status c = Regression)) \<longrightarrow>
            fst (main json_load a w) = Exit 0 \<and>
            exit_code (fst (main json_load a w)) = 0 \<and>
            stdout (snd (main json_load a w)) =
              stdout w @ [''Comparison report written to '' @ arg_output a])"
  using assms
  by (auto simp: main_def Let_def exit_code_def filter_empty_conv)

text \<open>
  The theorem at the example run, whose flag is set: exit code 1, the report in
  \<open>comparison.md\<close>, and three printed lines.
\<close>

theorem exit_code_after_report_witness:
  "build_report example_loader example_args example_world
     = Inr (example_comparisons, example_report) \<and>
   files (snd (main example_loader example_args example_world)) ''comparison.md''
     = Some example_report \<and>
   fst (main example_loader example_args example_world) = Exit 1 \<and>
   stdout (snd (main example_loader example_args example_world)) =
     [''Comparison report written to comparison.md'',
      [CHR 0x0A] @ warning_sign @ ''  1 regressions detected!'',
      ''  - parse: +15.0%'']"
proof -
  have 1: "build_report example_loader example_args example_world
     = Inr (example_comparisons, example_report)" by code_simp
  have 2: "writable example_world (arg_output example_args)" by code_simp
  have 3: "arg_fail_on_regression example_args \<and>
    (\<exists>c\<in>set example_comparisons. status c = Regression)" by code_simp
  have 4: "arg_output example_args = ''comparison.md''" by code_simp
  have 5: "stdout example_world
              @ [''Comparison report written to '' @ arg_output example_args]
              @ [[CHR 0x0A] @ warning_sign @ ''  ''
                 @ show_nat (length (filter (\<lambda>c. status c = Regression) example_comparisons))
                 @ '' regressions detected!'']
              @ map (\<lambda>r. ''  - '' @ name r @ '': +'' @ format_f 1 (change_percent r) @ ''%'')
                  (filter (\<lambda>c. status c = Regression) example_comparisons)
     = [''Comparison report written to comparison.md'',
      [CHR 0x0A] @ warning_sign @ ''  1 regressions detected!'',
      ''  - parse: +15.0%'']" by code_simp
  from exit_code_after_report[OF 1 2] 3
  have f: "files (snd (main example_loader example_args example_world)) (arg_output example_args)
          = Some example_report"
    and x: "fst (main example_loader example_args example_world) = Exit 1"
    and s: "stdout (snd (main example_loader example_args example_world)) =
              stdout example_world
              @ [''Comparison report written to '' @ arg_output example_args]
              @ [[CHR 0x0A] @ warning_sign @ ''  ''
                 @ show_nat (length (filter (\<lambda>c. status c = Regression) example_comparisons))
                 @ '' regressions detected!'']
              @ map (\<lambda>r. ''  - '' @ name r @ '': +'' @ format_f 1 (change_percent r) @ ''%'')
                  (filter (\<lambda>c. status c = Regression) example_comparisons)"
    by blast+
  from f have f': "files (snd (main example_loader example_args example_world)) ''comparison.md''
          = Some example_report"
    by (simp only: 4)
  from s have s': "stdout (snd (main example_loader example_args example_world)) =
     [''Comparison report written to comparison.md'',
      [CHR 0x0A] @ warning_sign @ ''  1 regressions detected!'',
      ''  - parse: +15.0%'']"
    by (simp only: 5)
  from 1 f' x s' show ?thesis by (intro conjI)
qed



end
